theory Spec2Isabelle
  imports Main "HOL-Library.Word"
begin

unbundle bit_operations_syntax

section \<open>Machine integers and outcomes of a Go call\<close>

text \<open>
  Go's fixed-width unsigned integers are words; \<open>int16\<close> values are 16-bit words read
  through \<open>sint\<close>. Go's \<open>int\<close> is taken to be 64 bits wide, so the conversion
  \<open>int(x)\<close> of a \<open>uint32\<close> never yields a negative number; it is modelled by \<open>uint\<close>.
\<close>

type_synonym u8 = "8 word"
type_synonym u16 = "16 word"
type_synonym u32 = "32 word"
type_synonym u64 = "64 word"
type_synonym i16 = "16 word"

text \<open>
  What a call can do: return a value (\<open>Ok\<close>), return a Go \<open>error\<close> (\<open>Err\<close>, with the
  text of the message), terminate the process through \<open>log.Fatal\<close> or \<open>os.Exit(1)\<close>
  (\<open>Fatal\<close>), or raise the runtime panic of an index out of range (\<open>Panic\<close>).
  \<open>OutOfFuel\<close> is not an outcome of the program: it marks the end of the bound that
  the main loop of \<open>inflateData\<close> is unrolled with, which that loop is shown never to
  reach.
\<close>

datatype 'a outcome = Ok 'a | Err string | Fatal string | Panic | OutOfFuel

fun obind :: "'a outcome \<Rightarrow> ('a \<Rightarrow> 'b outcome) \<Rightarrow> 'b outcome" where
  "obind (Ok x) f = f x"
| "obind (Err e) f = Err e"
| "obind (Fatal m) f = Fatal m"
| "obind Panic f = Panic"
| "obind OutOfFuel f = OutOfFuel"

text \<open>Go's bounds-checked indexing of a slice or an array.\<close>

definition at :: "'a list \<Rightarrow> nat \<Rightarrow> 'a outcome" where
  "at xs i = (if i < length xs then Ok (xs ! i) else Panic)"

definition store :: "'a list \<Rightarrow> nat \<Rightarrow> 'a \<Rightarrow> 'a list outcome" where
  "store xs i v = (if i < length xs then Ok (xs[i := v]) else Panic)"

section \<open>The archive: header, MFT and index table\<close>

definition DatMagicNumber :: nat where "DatMagicNumber = 3"
definition MftMagicNumber :: nat where "MftMagicNumber = 4"
definition MftEntryIndexNum :: nat where "MftEntryIndexNum = 1"

text \<open>
  Field names that occur in two structs of the source carry the struct's name here
  (\<open>MftIdentifier\<close>, \<open>MftUnknownField2\<close>, \<open>EntryCRC\<close>).
\<close>

record DatHeader =
  Version :: u8
  Identifier :: "u8 list"
  HeaderSize :: u32
  UnknownField :: u32
  ChunkSize :: u32
  CRC :: u32
  UnknownField2 :: u32
  MftOffset :: u64
  MftSize :: u32
  Flags :: u32

record MFTHeader =
  MftIdentifier :: "u8 list"
  Unknown :: u64
  NumEntries :: u32
  MftUnknownField2 :: u32
  UnknownField3 :: u32

record MFTData =
  Offset :: u64
  Size :: u32
  CompressionFlag :: u16
  EntryFlag :: u16
  Counter :: u32
  EntryCRC :: u32

record MFTIndexData =
  FileID :: u32
  BaseID :: u32

record DatFile =
  Header :: DatHeader
  MFTHeader :: MFTHeader
  MFTData :: "MFTData list"
  MFTIndexData :: "MFTIndexData list"

subsection \<open>Reading from an opened file\<close>

text \<open>
  An opened \<open>os.File\<close> is its bytes and a read position. A read of \<open>n\<close> bytes delivers
  the bytes that are left, at most \<open>n\<close>, and advances the position by what it delivered.
  \<open>Seek\<close> from the start fails on an offset that is negative as an \<open>int64\<close> and then
  leaves the position where it was; \<open>loadDatFile\<close> ignores that error.
\<close>

record File =
  fileBytes :: "u8 list"
  filePos :: nat

definition readN :: "File \<Rightarrow> nat \<Rightarrow> u8 list \<times> File" where
  "readN f n =
     (let got = take n (drop (filePos f) (fileBytes f))
      in (got, f\<lparr>filePos := filePos f + length got\<rparr>))"

definition seekStart :: "File \<Rightarrow> u64 \<Rightarrow> File" where
  "seekStart f off = (if sint off < 0 then f else f\<lparr>filePos := unat off\<rparr>)"

text \<open>\<open>binary.LittleEndian\<close>: the first byte is the least significant one.\<close>

fun leWord :: "u8 list \<Rightarrow> 'a::len word" where
  "leWord [] = 0"
| "leWord (b # bs) = ucast b OR push_bit 8 (leWord bs)"

text \<open>
  \<open>binary.Read\<close> of a \<open>k\<close>-byte integer: \<open>io.ReadFull\<close> consumes what is left of the
  file; on a short read the error is returned and the value stays zero. The callers drop
  the error.
\<close>

definition readLE :: "nat \<Rightarrow> File \<Rightarrow> 'a::len word \<times> File" where
  "readLE k f =
     (let (got, f') = readN f k
      in (if length got = k then leWord got else 0, f'))"

definition readUint16LE :: "File \<Rightarrow> u16 \<times> File" where
  "readUint16LE f = readLE 2 f"

definition readUint32LE :: "File \<Rightarrow> u32 \<times> File" where
  "readUint32LE f = readLE 4 f"

definition readUint64LE :: "File \<Rightarrow> u64 \<times> File" where
  "readUint64LE f = readLE 8 f"

text \<open>
  \<open>file.Read(a[:])\<close> into a zeroed array of \<open>k\<close> bytes: the bytes delivered, then the
  zeros that were not overwritten.
\<close>

definition readArray :: "nat \<Rightarrow> File \<Rightarrow> u8 list \<times> File" where
  "readArray k f =
     (let (got, f') = readN f k
      in (got @ replicate (k - length got) 0, f'))"

definition readDatHeader :: "File \<Rightarrow> DatHeader \<times> File" where
  "readDatHeader f0 =
     (let (version, f1) = readLE 1 f0;
          (identifier, f2) = readArray DatMagicNumber f1;
          (headerSize, f3) = readUint32LE f2;
          (unknownField, f4) = readUint32LE f3;
          (chunkSize, f5) = readUint32LE f4;
          (crc, f6) = readUint32LE f5;
          (unknownField2, f7) = readUint32LE f6;
          (mftOffset, f8) = readUint64LE f7;
          (mftSize, f9) = readUint32LE f8;
          (flags, f10) = readUint32LE f9
      in (\<lparr>Version = version, Identifier = identifier, HeaderSize = headerSize,
           UnknownField = unknownField, ChunkSize = chunkSize, CRC = crc,
           UnknownField2 = unknownField2, MftOffset = mftOffset, MftSize = mftSize,
           Flags = flags\<rparr>, f10))"

definition readMFTHeader :: "File \<Rightarrow> MFTHeader \<times> File" where
  "readMFTHeader f0 =
     (let (identifier, f1) = readArray MftMagicNumber f0;
          (unknown, f2) = readUint64LE f1;
          (numEntries, f3) = readUint32LE f2;
          (unknownField2, f4) = readUint32LE f3;
          (unknownField3, f5) = readUint32LE f4
      in (\<lparr>MftIdentifier = identifier, Unknown = unknown, NumEntries = numEntries,
           MftUnknownField2 = unknownField2, UnknownField3 = unknownField3\<rparr>, f5))"

definition readMFTData :: "File \<Rightarrow> MFTData \<times> File" where
  "readMFTData f0 =
     (let (offset, f1) = readUint64LE f0;
          (size, f2) = readUint32LE f1;
          (compressionFlag, f3) = readUint16LE f2;
          (entryFlag, f4) = readUint16LE f3;
          (counter, f5) = readUint32LE f4;
          (crc, f6) = readUint32LE f5
      in (\<lparr>Offset = offset, Size = size, CompressionFlag = compressionFlag,
           EntryFlag = entryFlag, Counter = counter, EntryCRC = crc\<rparr>, f6))"

text \<open>The loop \<open>for i := range datFile.MFTData\<close> over a slice of \<open>n\<close> entries.\<close>

fun readEntries :: "nat \<Rightarrow> File \<Rightarrow> MFTData list \<times> File" where
  "readEntries 0 f = ([], f)"
| "readEntries (Suc n) f =
     (let (e, f1) = readMFTData f;
          (es, f2) = readEntries n f1
      in (e # es, f2))"

definition readMFTIndexData :: "File \<Rightarrow> MFTIndexData \<times> File" where
  "readMFTIndexData f0 =
     (let (fileID, f1) = readUint32LE f0;
          (baseID, f2) = readUint32LE f1
      in (\<lparr>FileID = fileID, BaseID = baseID\<rparr>, f2))"

fun readIndexEntries :: "nat \<Rightarrow> File \<Rightarrow> MFTIndexData list \<times> File" where
  "readIndexEntries 0 f = ([], f)"
| "readIndexEntries (Suc n) f =
     (let (e, f1) = readMFTIndexData f;
          (es, f2) = readIndexEntries n f1
      in (e # es, f2))"

definition mftMagic :: "u8 list" where
  "mftMagic = [0x4D, 0x66, 0x74, 0x1A]"

text \<open>
  The MFT header as \<open>loadDatFile\<close> reads it: after the primary header, at \<open>MftOffset\<close>.
\<close>

definition mftHeaderOf :: "u8 list \<Rightarrow> MFTHeader \<times> File" where
  "mftHeaderOf bytes =
     (let (hdr, f1) = readDatHeader \<lparr>fileBytes = bytes, filePos = 0\<rparr>
      in readMFTHeader (seekStart f1 (MftOffset hdr)))"

text \<open>
  \<open>loadDatFile\<close>. Its argument is what \<open>os.Open\<close> gave for the path: \<open>None\<close> when the
  file could not be opened. \<open>datFile.MFTData[MftEntryIndexNum]\<close> is an indexing of a
  slice of \<open>NumEntries\<close> elements, with Go's bounds check.
\<close>

definition loadDatFile :: "u8 list option \<Rightarrow> DatFile outcome" where
  "loadDatFile opened =
     (case opened of
        None \<Rightarrow> Err ''failed to open file''
      | Some bytes \<Rightarrow>
          (let (hdr, f1) = readDatHeader \<lparr>fileBytes = bytes, filePos = 0\<rparr>;
               (mh, f3) = readMFTHeader (seekStart f1 (MftOffset hdr))
           in if MftIdentifier mh \<noteq> mftMagic then Err ''invalid MFT header magic number''
              else
                (let (entries, f4) = readEntries (unat (NumEntries mh)) f3
                 in obind (at entries MftEntryIndexNum) (\<lambda>e1.
                      (let numIndexEntries = Size e1 div 8;
                           (idx, f6) = readIndexEntries (unat numIndexEntries)
                                         (seekStart f4 (Offset e1))
                       in Ok \<lparr>Header = hdr, MFTHeader = mh, MFTData = entries,
                               MFTIndexData = idx\<rparr>)))))"

section \<open>Opening an archive\<close>

lemma readEntries_length: "length (fst (readEntries n f)) = n"
  by (induction n arbitrary: f) (simp_all add: split_beta Let_def)

lemma loadDatFile_cases:
  "loadDatFile (Some bytes) =
     (let (mh, f3) = mftHeaderOf bytes
      in if MftIdentifier mh \<noteq> mftMagic then Err ''invalid MFT header magic number''
         else if unat (NumEntries mh) \<le> 1 then Panic
         else
           (let (hdr, f1) = readDatHeader \<lparr>fileBytes = bytes, filePos = 0\<rparr>;
                (entries, f4) = readEntries (unat (NumEntries mh)) f3;
                e1 = entries ! 1;
                (idx, f6) = readIndexEntries (unat (Size e1 div 8)) (seekStart f4 (Offset e1))
            in Ok \<lparr>Header = hdr, MFTHeader = mh, MFTData = entries, MFTIndexData = idx\<rparr>))"
proof -
  obtain hdr f1 where h: "readDatHeader \<lparr>fileBytes = bytes, filePos = 0\<rparr> = (hdr, f1)"
    by (cases "readDatHeader \<lparr>fileBytes = bytes, filePos = 0\<rparr>")
  obtain mh f3 where m: "readMFTHeader (seekStart f1 (MftOffset hdr)) = (mh, f3)"
    by (cases "readMFTHeader (seekStart f1 (MftOffset hdr))")
  obtain entries f4 where e: "readEntries (unat (NumEntries mh)) f3 = (entries, f4)"
    by (cases "readEntries (unat (NumEntries mh)) f3")
  have len: "length entries = unat (NumEntries mh)"
    using readEntries_length [of "unat (NumEntries mh)" f3] e by simp
  show ?thesis
    by (simp add: loadDatFile_def mftHeaderOf_def h m e len at_def MftEntryIndexNum_def
        split_beta Let_def not_le not_less)
qed


subsection \<open>Evaluation on concrete files\<close>

text \<open>
  Rules that run the readers on a file given by its bytes and position. The two
  operations that take the file apart are unfolded on an explicit file only.
\<close>

lemma obind_weak_cong: "m = m' \<Longrightarrow> obind m f = obind m' f"
  by simp

lemmas readN_eval = readN_def [of "\<lparr>fileBytes = bs, filePos = p\<rparr>" for bs p]

lemmas seekStart_eval = seekStart_def [of "\<lparr>fileBytes = bs, filePos = p\<rparr>" for bs p]

lemma readEntries_numeral:
  "readEntries (numeral k) f =
     (let (e, f1) = readMFTData f; (es, f2) = readEntries (pred_numeral k) f1 in (e # es, f2))"
  by (simp add: numeral_eq_Suc)

lemma readIndexEntries_numeral:
  "readIndexEntries (numeral k) f =
     (let (e, f1) = readMFTIndexData f; (es, f2) = readIndexEntries (pred_numeral k) f1
      in (e # es, f2))"
  by (simp add: numeral_eq_Suc)

lemmas file_evals =
  readN_eval seekStart_eval readDatHeader_def readMFTHeader_def readLE_def readArray_def
  readMFTData_def readMFTIndexData_def readUint32LE_def readUint64LE_def readUint16LE_def
  readEntries_numeral readIndexEntries_numeral mftHeaderOf_def
  DatMagicNumber_def MftMagicNumber_def mftMagic_def at_def MftEntryIndexNum_def Let_def

text \<open>
  Two small files. \<open>archive1\<close> is the four bytes of the MFT magic: every later read
  hits the end of the file, so \<open>MftOffset\<close> and \<open>NumEntries\<close> are 0. \<open>archive2\<close> has
  its MFT at offset 0 with two entries; entry 1 locates one index record at offset 0.
\<close>

definition archive1 :: "u8 list" where
  "archive1 = [0x4D, 0x66, 0x74, 0x1A]"

definition archive2 :: "u8 list" where
  "archive2 =
     [0x4D, 0x66, 0x74, 0x1A, 0, 0, 0, 0, 0, 0, 0, 0, 2, 0, 0, 0, 0, 0, 0, 0, 0, 0, 0, 0,
      0, 0, 0, 0, 0, 0, 0, 0, 0, 0, 0, 0, 0, 0, 0, 0, 0, 0, 0, 0, 0, 0, 0, 0,
      0, 0, 0, 0, 0, 0, 0, 0, 8, 0, 0, 0, 0, 0, 0, 0, 0, 0, 0, 0, 0, 0, 0, 0]"

definition datFile2 :: DatFile where
  "datFile2 =
     \<lparr>Header = \<lparr>Version = 0x4D, Identifier = [0x66, 0x74, 0x1A], HeaderSize = 0,
                 UnknownField = 0, ChunkSize = 2, CRC = 0, UnknownField2 = 0, MftOffset = 0,
                 MftSize = 0, Flags = 0\<rparr>,
      MFTHeader = \<lparr>MftIdentifier = [0x4D, 0x66, 0x74, 0x1A], Unknown = 0, NumEntries = 2,
                    MftUnknownField2 = 0, UnknownField3 = 0\<rparr>,
      MFTData = [\<lparr>Offset = 0, Size = 0, CompressionFlag = 0, EntryFlag = 0, Counter = 0,
                   EntryCRC = 0\<rparr>,
                 \<lparr>Offset = 0, Size = 8, CompressionFlag = 0, EntryFlag = 0, Counter = 0,
                   EntryCRC = 0\<rparr>],
      MFTIndexData = [\<lparr>FileID = 0x1A74664D, BaseID = 0\<rparr>]\<rparr>"

lemma mftHeaderOf_archive1:
  "fst (mftHeaderOf archive1) =
     \<lparr>MftIdentifier = [0x4D, 0x66, 0x74, 0x1A], Unknown = 0, NumEntries = 0,
      MftUnknownField2 = 0, UnknownField3 = 0\<rparr>"
  by (simp add: archive1_def file_evals cong: let_weak_cong prod.case_cong_weak)

lemma loadDatFile_archive2: "loadDatFile (Some archive2) = Ok datFile2"
  by (simp add: archive2_def datFile2_def loadDatFile_def file_evals
      cong: let_weak_cong prod.case_cong_weak obind_weak_cong)

text \<open>
  Claim C10. \<open>loadDatFile\<close> indexes \<open>MFTData[1]\<close> without a check. With a valid MFT magic
  and \<open>NumEntries \<le> 1\<close> the call neither returns an error nor a handle: the indexing is
  out of range and the runtime panics. Whenever a handle is returned, the header it
  holds declares at least two entries, and the entry slice has that many elements.
\<close>

theorem loadDatFile_indexes_entry_one:
  "(MftIdentifier (fst (mftHeaderOf bytes)) = mftMagic \<and>
      unat (NumEntries (fst (mftHeaderOf bytes))) \<le> 1
      \<longrightarrow> loadDatFile (Some bytes) = Panic) \<and>
   (loadDatFile (Some bytes) = Ok d
      \<longrightarrow> 2 \<le> unat (NumEntries (MFTHeader d)) \<and>
          length (MFTData d) = unat (NumEntries (MFTHeader d)))"
proof -
  obtain mh f3 where m: "mftHeaderOf bytes = (mh, f3)"
    by (cases "mftHeaderOf bytes")
  have len: "length (fst (readEntries (unat (NumEntries mh)) f3)) = unat (NumEntries mh)"
    by (rule readEntries_length)
  have panic: "MftIdentifier mh = mftMagic \<Longrightarrow> unat (NumEntries mh) \<le> 1
      \<Longrightarrow> loadDatFile (Some bytes) = Panic"
    by (simp add: loadDatFile_cases m)
  have ok: "loadDatFile (Some bytes) = Ok d \<Longrightarrow>
      2 \<le> unat (NumEntries (MFTHeader d)) \<and>
      length (MFTData d) = unat (NumEntries (MFTHeader d))"
    using len
    by (auto simp add: loadDatFile_cases m split_beta Let_def split: if_splits)
  show ?thesis
    using panic ok by (simp add: m)
qed

theorem loadDatFile_indexes_entry_one_witness:
  "MftIdentifier (fst (mftHeaderOf archive1)) = mftMagic \<and>
   unat (NumEntries (fst (mftHeaderOf archive1))) \<le> 1 \<and>
   loadDatFile (Some archive1) = Panic \<and>
   loadDatFile (Some archive2) = Ok datFile2 \<and>
   2 \<le> unat (NumEntries (MFTHeader datFile2)) \<and>
   length (MFTData datFile2) = unat (NumEntries (MFTHeader datFile2))"
  using loadDatFile_indexes_entry_one [of archive1 datFile2]
    loadDatFile_indexes_entry_one [of archive2 datFile2]
  by (simp add: mftHeaderOf_archive1 loadDatFile_archive2 mftMagic_def)


section \<open>The bit pump\<close>

definition MAX_SYMBOL_VALUE :: nat where "MAX_SYMBOL_VALUE = 285"
definition MAX_CODE_BITS_LENGTH :: nat where "MAX_CODE_BITS_LENGTH = 32"
definition BlockSize :: u32 where "BlockSize = 0x4000"

text \<open>
  The four tables of a \<open>HuffmanTree\<close> are Go arrays of \<open>MAX_SYMBOL_VALUE\<close> elements and
  the two working tables are arrays of 32 and of 285 elements. An array is a list here;
  its index check is against the array's declared length.
\<close>

definition arrGet :: "nat \<Rightarrow> 'a list \<Rightarrow> nat \<Rightarrow> 'a outcome" where
  "arrGet n xs i = (if i < n then Ok (xs ! i) else Panic)"

definition arrSet :: "nat \<Rightarrow> 'a list \<Rightarrow> nat \<Rightarrow> 'a \<Rightarrow> 'a list outcome" where
  "arrSet n xs i v = (if i < n then Ok (xs[i := v]) else Panic)"

record HuffmanTree =
  SymbolValues :: "u16 list"
  CompressedCodes :: "u32 list"
  BitsLength :: "u8 list"
  SymbolValueOffset :: "u16 list"

definition wfTree :: "HuffmanTree \<Rightarrow> bool" where
  "wfTree t =
     (length (SymbolValues t) = MAX_SYMBOL_VALUE \<and>
      length (CompressedCodes t) = MAX_SYMBOL_VALUE \<and>
      length (BitsLength t) = MAX_SYMBOL_VALUE \<and>
      length (SymbolValueOffset t) = MAX_SYMBOL_VALUE)"

record State =
  InputData :: "u32 list"
  InputSize :: u32
  InputPosition :: u32
  Head :: u32
  Bits :: u32
  Buffer :: u32
  Empty :: bool

text \<open>
  \<open>pullByte\<close>. A shift by a count of 32 or more gives 0 in Go, as \<open>push_bit\<close> and
  \<open>drop_bit\<close> do on a 32-bit word. \<open>log.Fatal\<close> ends the process, so the \<open>return\<close>
  after it is never reached.
\<close>

definition pullByte :: "State \<Rightarrow> State outcome" where
  "pullByte stateData =
     (if 32 \<le> Bits stateData
      then Fatal ''Tried to pull a value while we still have 32 bits available.''
      else
        (let p = (if (InputPosition stateData + 1) mod BlockSize = 0
                  then InputPosition stateData + 1 else InputPosition stateData)
         in if InputSize stateData \<le> p
            then Fatal ''Reached end of input while trying to fetch a new byte.''
            else obind (at (InputData stateData) (unat p)) (\<lambda>tempValue.
                   Ok (stateData
                     \<lparr>Head := (if Bits stateData = 0 then tempValue
                               else Head stateData OR drop_bit (unat (Bits stateData)) tempValue),
                      Buffer := (if Bits stateData = 0 then 0
                                 else push_bit (unat (32 - Bits stateData)) tempValue),
                      Bits := Bits stateData + 32,
                      InputPosition := p + 1\<rparr>))))"

definition needBits :: "State \<Rightarrow> u8 \<Rightarrow> State outcome" where
  "needBits stateData bits =
     (if 32 < bits then Fatal ''Tried to need more than 32 bits.''
      else if Bits stateData < ucast bits then pullByte stateData
      else Ok stateData)"

definition dropBits :: "State \<Rightarrow> u8 \<Rightarrow> State outcome" where
  "dropBits stateData bits =
     (if 32 < bits then Fatal ''Tried to drop more than 32 bits.''
      else if Bits stateData < ucast bits then Fatal ''Tried to drop more bits than we have.''
      else Ok (stateData
        \<lparr>Head := (if bits = 32 then Buffer stateData
                  else push_bit (unat bits) (Head stateData) OR
                       drop_bit (unat (32 - bits)) (Buffer stateData)),
         Buffer := (if bits = 32 then 0 else push_bit (unat bits) (Buffer stateData)),
         Bits := Bits stateData - ucast bits\<rparr>))"

definition readBits :: "State \<Rightarrow> u8 \<Rightarrow> u32" where
  "readBits state bits = drop_bit (unat (32 - bits)) (Head state)"

section \<open>The Huffman codec\<close>

text \<open>
  The scan \<open>for bitsRead < CompressedCodes[tempIndex] { tempIndex++ }\<close>: it stops at
  the first index whose code is not above \<open>bitsRead\<close>, and panics when it runs off the
  array.
\<close>

function scanCodes :: "u32 list \<Rightarrow> u32 \<Rightarrow> nat \<Rightarrow> nat outcome" where
  "scanCodes codes bitsRead tempIndex =
     (if MAX_SYMBOL_VALUE \<le> tempIndex then Panic
      else if bitsRead < codes ! tempIndex then scanCodes codes bitsRead (tempIndex + 1)
      else Ok tempIndex)"
  by pat_completeness auto
termination
  by (relation "measure (\<lambda>(codes, bitsRead, tempIndex). MAX_SYMBOL_VALUE - tempIndex)") auto

definition readCode :: "HuffmanTree \<Rightarrow> State \<Rightarrow> (u16 \<times> State) outcome" where
  "readCode huffmanTree stateData =
     (if CompressedCodes huffmanTree ! 0 = 0
      then Fatal ''Trying to read code from an empty HuffmanTree.''
      else
        obind (needBits stateData 32) (\<lambda>s1.
        obind (scanCodes (CompressedCodes huffmanTree) (readBits s1 32) 0) (\<lambda>tempIndex.
          (let bitsRead = readBits s1 32;
               tempBits = BitsLength huffmanTree ! tempIndex
           in obind (arrGet MAX_SYMBOL_VALUE (SymbolValues huffmanTree)
                       (unat (SymbolValueOffset huffmanTree ! tempIndex -
                          ucast (drop_bit (unat (32 - tempBits))
                                   (bitsRead - CompressedCodes huffmanTree ! tempIndex)))))
                (\<lambda>ioCode.
              obind (dropBits s1 tempBits) (\<lambda>s2. Ok (ioCode, s2)))))))"

text \<open>An \<open>int16\<close> used as an index: a negative one is out of range.\<close>

definition sidx :: "i16 \<Rightarrow> nat outcome" where
  "sidx i = (if sint i < 0 then Panic else Ok (nat (sint i)))"

text \<open>
  The inner loop of \<open>createHuffmanTree\<close>, which walks the chain of one code length. Every
  round writes \<open>SymbolValues[symbolOffset]\<close>, so the walk ends after at most 285 rounds,
  with a panic when the chain does not end.
\<close>

function walkChain ::
  "i16 list \<Rightarrow> i16 \<Rightarrow> u16 list \<Rightarrow> nat \<Rightarrow> u32 \<Rightarrow> (u16 list \<times> nat \<times> u32) outcome" where
  "walkChain ioWorkingCodeTab tempSymbol symbolValues symbolOffset tempCode =
     (if tempSymbol = - 1 then Ok (symbolValues, symbolOffset, tempCode)
      else if MAX_SYMBOL_VALUE \<le> symbolOffset then Panic
      else if sint tempSymbol < 0 \<or> MAX_SYMBOL_VALUE \<le> nat (sint tempSymbol) then Panic
      else walkChain ioWorkingCodeTab (ioWorkingCodeTab ! nat (sint tempSymbol))
             (symbolValues[symbolOffset := ucast tempSymbol]) (symbolOffset + 1) (tempCode - 1))"
  by pat_completeness auto
termination
  by (relation "measure (\<lambda>(wc, s, sv, off, c). MAX_SYMBOL_VALUE - off)") auto

text \<open>
  The outer loop of \<open>createHuffmanTree\<close> over the code lengths 0 to 31. The counters
  \<open>tempBits\<close> (\<open>uint8\<close>), \<open>comparisonCodeIndex\<close> and \<open>symbolOffset\<close> (\<open>uint16\<close>) stay
  below 33, 33 and 286, so they are natural numbers here; \<open>symbolOffset - 1\<close> is taken
  in \<open>uint16\<close>.
\<close>

function createLoop ::
  "i16 list \<Rightarrow> i16 list \<Rightarrow> nat \<Rightarrow> HuffmanTree \<Rightarrow> u32 \<Rightarrow> nat \<Rightarrow> nat \<Rightarrow> HuffmanTree outcome" where
  "createLoop ioWorkingBitTab ioWorkingCodeTab tempBits tree tempCode comparisonCodeIndex
       symbolOffset =
     (if tempBits < MAX_CODE_BITS_LENGTH then
        (if ioWorkingBitTab ! tempBits \<noteq> - 1 then
           obind (walkChain ioWorkingCodeTab (ioWorkingBitTab ! tempBits) (SymbolValues tree)
                    symbolOffset tempCode) (\<lambda>walked.
           obind (arrSet MAX_SYMBOL_VALUE (CompressedCodes tree) comparisonCodeIndex
                    (push_bit (32 - tempBits) (snd (snd walked) + 1))) (\<lambda>codes.
           obind (arrSet MAX_SYMBOL_VALUE (BitsLength tree) comparisonCodeIndex
                    (of_nat tempBits)) (\<lambda>lens.
           obind (arrSet MAX_SYMBOL_VALUE (SymbolValueOffset tree) comparisonCodeIndex
                    (of_nat (fst (snd walked)) - 1)) (\<lambda>offs.
             createLoop ioWorkingBitTab ioWorkingCodeTab (tempBits + 1)
               \<lparr>SymbolValues = fst walked, CompressedCodes = codes, BitsLength = lens,
                 SymbolValueOffset = offs\<rparr>
               (push_bit 1 (snd (snd walked)) + 1) (comparisonCodeIndex + 1)
               (fst (snd walked))))))
         else createLoop ioWorkingBitTab ioWorkingCodeTab (tempBits + 1) tree
                (push_bit 1 tempCode + 1) comparisonCodeIndex symbolOffset)
      else Ok tree)"
  by pat_completeness auto
termination
  by (relation "measure (\<lambda>(wb, wc, tempBits, r). MAX_CODE_BITS_LENGTH - tempBits)") auto

definition createHuffmanTree :: "HuffmanTree \<Rightarrow> i16 list \<Rightarrow> i16 list \<Rightarrow> HuffmanTree outcome" where
  "createHuffmanTree ioHuffmanTree ioWorkingBitTab ioWorkingCodeTab =
     createLoop ioWorkingBitTab ioWorkingCodeTab 0 ioHuffmanTree 0 0 0"

definition fillTabsHelper ::
  "u8 \<Rightarrow> i16 \<Rightarrow> i16 list \<Rightarrow> i16 list \<Rightarrow> (i16 list \<times> i16 list) outcome" where
  "fillTabsHelper bits symbol ioWorkingBitTab ioWorkingCodeTab =
     (if MAX_CODE_BITS_LENGTH \<le> unat bits then Ok (ioWorkingBitTab, ioWorkingCodeTab)
      else if int MAX_SYMBOL_VALUE \<le> sint symbol then Ok (ioWorkingBitTab, ioWorkingCodeTab)
      else if ioWorkingBitTab ! unat bits = - 1
      then Ok (ioWorkingBitTab[unat bits := symbol], ioWorkingCodeTab)
      else obind (sidx symbol) (\<lambda>i.
             Ok (ioWorkingBitTab[unat bits := symbol],
                 ioWorkingCodeTab[i := ioWorkingBitTab ! unat bits])))"

text \<open>The tables of \<open>initializeHuffmanTreeDict\<close>, as the source lists them.\<close>

definition dictBits :: "u8 list" where
  "dictBits =
     [3, 3, 3, 4, 4, 4, 4, 5, 5, 5, 5, 6, 6, 6, 6, 6, 6, 6, 6, 7, 7, 7, 7, 7,
      7, 7, 8, 8, 8, 8, 8, 8, 9, 9, 9, 9, 9, 9, 9, 9, 9, 9, 10, 10, 10, 10, 10, 10,
      10, 10, 10, 10, 10, 10, 10, 10, 10, 10, 11, 11, 11, 11, 11, 11, 11, 11, 11, 11, 11, 11, 11, 12,
      12, 12, 12, 12, 12, 12, 13, 13, 13, 13, 13, 13, 14, 14, 14, 14, 15, 15, 15, 15, 15, 15, 15, 15,
      16, 16, 16, 16, 16, 16, 16, 16, 16, 16, 16, 16, 16, 16, 16, 16, 16, 16, 16, 16, 16, 16, 16, 16,
      16, 16, 16, 16, 16, 16, 16, 16, 16, 16, 16, 16, 16, 16, 16, 16, 16, 16, 16, 16, 16, 16, 16, 16,
      16, 16, 16, 16, 16, 16, 16, 16, 16, 16, 16, 16, 16, 16, 16, 16, 16, 16, 16, 16, 16, 16, 16, 16,
      16, 16, 16, 16, 16, 16, 16, 16, 16, 16, 16, 16, 16, 16, 16, 16, 16, 16, 16, 16, 16, 16, 16, 16,
      16, 16, 16, 16, 16, 16, 16, 16, 16, 16, 16, 16, 16, 16, 16, 16, 16, 16, 16, 16, 16, 16, 16, 16,
      16, 16, 16, 16, 16, 16, 16, 16, 16, 16, 16, 16, 16, 16, 16, 16, 16, 16, 16, 16, 16, 16, 16, 16,
      16, 16, 16, 16, 16, 16, 16, 16, 16, 16, 16, 16, 16, 16, 16, 16]"

definition dictSymbols :: "i16 list" where
  "dictSymbols =
     [0x0A, 0x09, 0x08, 0x0C, 0x0B, 0x07, 0x00, 0xE0, 0x2A, 0x29, 0x06, 0x4A, 0x40, 0x2C, 0x2B,
      0x28, 0x20, 0x05, 0x04, 0x49, 0x48, 0x27, 0x26, 0x25, 0x0D, 0x03, 0x6A, 0x69, 0x4C, 0x4B,
      0x47, 0x24, 0xE8, 0xA0, 0x89, 0x88, 0x68, 0x67, 0x63, 0x60, 0x46, 0x23, 0xE9, 0xC9, 0xC0,
      0xA9, 0xA8, 0x8A, 0x87, 0x80, 0x66, 0x65, 0x45, 0x44, 0x43, 0x2D, 0x02, 0x01, 0xE5, 0xC8,
      0xAA, 0xA5, 0xA4, 0x8B, 0x85, 0x84, 0x6C, 0x6B, 0x64, 0x4D, 0x0E, 0xE7, 0xCA, 0xC7, 0xA7,
      0xA6, 0x86, 0x83, 0xE6, 0xE4, 0xC4, 0x8C, 0x2E, 0x22, 0xEC, 0xC6, 0x6D, 0x4E, 0xEA, 0xCC,
      0xAC, 0xAB, 0x8D, 0x11, 0x10, 0x0F, 0xFF, 0xFE, 0xFD, 0xFC, 0xFB, 0xFA, 0xF9, 0xF8, 0xF7,
      0xF6, 0xF5, 0xF4, 0xF3, 0xF2, 0xF1, 0xF0, 0xEF, 0xEE, 0xED, 0xEB, 0xE3, 0xE2, 0xE1, 0xDF,
      0xDE, 0xDD, 0xDC, 0xDB, 0xDA, 0xD9, 0xD8, 0xD7, 0xD6, 0xD5, 0xD4, 0xD3, 0xD2, 0xD1, 0xD0,
      0xCF, 0xCE, 0xCD, 0xCB, 0xC5, 0xC3, 0xC2, 0xC1, 0xBF, 0xBE, 0xBD, 0xBC, 0xBB, 0xBA, 0xB9,
      0xB8, 0xB7, 0xB6, 0xB5, 0xB4, 0xB3, 0xB2, 0xB1, 0xB0, 0xAF, 0xAE, 0xAD, 0xA3, 0xA2, 0xA1,
      0x9F, 0x9E, 0x9D, 0x9C, 0x9B, 0x9A, 0x99, 0x98, 0x97, 0x96, 0x95, 0x94, 0x93, 0x92, 0x91,
      0x90, 0x8F, 0x8E, 0x82, 0x81, 0x7F, 0x7E, 0x7D, 0x7C, 0x7B, 0x7A, 0x79, 0x78, 0x77, 0x76,
      0x75, 0x74, 0x73, 0x72, 0x71, 0x70, 0x6F, 0x6E, 0x62, 0x61, 0x5F, 0x5E, 0x5D, 0x5C, 0x5B,
      0x5A, 0x59, 0x58, 0x57, 0x56, 0x55, 0x54, 0x53, 0x52, 0x51, 0x50, 0x4F, 0x42, 0x41, 0x3F,
      0x3E, 0x3D, 0x3C, 0x3B, 0x3A, 0x39, 0x38, 0x37, 0x36, 0x35, 0x34, 0x33, 0x32, 0x31, 0x30,
      0x2F, 0x21, 0x1F, 0x1E, 0x1D, 0x1C, 0x1B, 0x1A, 0x19, 0x18, 0x17, 0x16, 0x15, 0x14, 0x13,
      0x12]"

text \<open>
  The loop \<open>for i := 0; i < tempSymbol; i++\<close> over \<open>bits[i]\<close> and \<open>symbols[i]\<close>;
  \<open>symbols[i]\<close> is out of range when the symbol table is the shorter one.
\<close>

fun fillTabs ::
  "u8 list \<Rightarrow> i16 list \<Rightarrow> i16 list \<Rightarrow> i16 list \<Rightarrow> (i16 list \<times> i16 list) outcome" where
  "fillTabs [] symbols wb wc = Ok (wb, wc)"
| "fillTabs (b # bits) [] wb wc = Panic"
| "fillTabs (b # bits) (s # symbols) wb wc =
     obind (fillTabsHelper b s wb wc) (\<lambda>tabs. fillTabs bits symbols (fst tabs) (snd tabs))"

definition emptyTree :: HuffmanTree where
  "emptyTree =
     \<lparr>SymbolValues = replicate MAX_SYMBOL_VALUE 0,
      CompressedCodes = replicate MAX_SYMBOL_VALUE 0,
      BitsLength = replicate MAX_SYMBOL_VALUE 0,
      SymbolValueOffset = replicate MAX_SYMBOL_VALUE 0\<rparr>"

definition initializeHuffmanTreeDict :: "HuffmanTree outcome" where
  "initializeHuffmanTreeDict =
     obind (fillTabs dictBits dictSymbols (replicate MAX_CODE_BITS_LENGTH (- 1))
              (replicate MAX_SYMBOL_VALUE (- 1))) (\<lambda>tabs.
       createHuffmanTree emptyTree (fst tabs) (snd tabs))"

subsection \<open>Parsing a tree from the stream\<close>

lemma obind_cong [fundef_cong]:
  "m = m' \<Longrightarrow> (\<And>x. m' = Ok x \<Longrightarrow> f x = f' x) \<Longrightarrow> obind m f = obind m' f'"
  by (cases m') simp_all

text \<open>
  The loop \<open>for codeNumberSymbol > 0\<close> of \<open>parseHuffmanTree\<close>, on the number of rounds
  that are left. \<open>workingBits[codeNumberBits]\<close> has an index below 32, and
  \<open>workingCode[remainingSymbol]\<close> is an indexing by an \<open>int16\<close>.
\<close>

fun registerSymbols ::
  "nat \<Rightarrow> nat \<Rightarrow> i16 \<Rightarrow> i16 list \<Rightarrow> i16 list \<Rightarrow> (i16 \<times> i16 list \<times> i16 list) outcome" where
  "registerSymbols 0 codeNumberBits remainingSymbol workingBits workingCode =
     Ok (remainingSymbol, workingBits, workingCode)"
| "registerSymbols (Suc n) codeNumberBits remainingSymbol workingBits workingCode =
     (if workingBits ! codeNumberBits = - 1
      then registerSymbols n codeNumberBits (remainingSymbol - 1)
             (workingBits[codeNumberBits := remainingSymbol]) workingCode
      else obind (sidx remainingSymbol) (\<lambda>i.
           obind (arrSet MAX_SYMBOL_VALUE workingCode i (workingBits ! codeNumberBits)) (\<lambda>wc.
             registerSymbols n codeNumberBits (remainingSymbol - 1)
               (workingBits[codeNumberBits := remainingSymbol]) wc)))"

lemma registerSymbols_remaining:
  "registerSymbols n b r wb wc = Ok res \<Longrightarrow> fst res = r - of_nat n"
proof (induction n arbitrary: r wb wc)
  case 0
  then show ?case by auto
next
  case (Suc n)
  then show ?case
    by (auto simp add: sidx_def arrSet_def split: if_splits)
qed

text \<open>
  The value of a 16-bit word as an \<open>int16\<close>, and the count \<open>(tempCode >> 5) + 1\<close>: it
  lies between 1 and 2048, so subtracting it from a non-negative \<open>int16\<close> lowers that
  number. This is what ends the loop \<open>for remainingSymbol >= 0\<close>.
\<close>

lemma sint16_uint:
  fixes w :: "16 word"
  shows "sint w = (if uint w < 32768 then uint w else uint w - 65536)"
proof -
  have b: "0 \<le> uint w" "uint w < 65536"
    using uint_lt2p [of w] by simp_all
  have s: "sint w = (uint w + 32768) mod 65536 - 32768"
    by (simp add: sint_uint signed_take_bit_eq_take_bit_shift take_bit_eq_mod)
  show ?thesis
  proof (cases "uint w < 32768")
    case True
    then have "(uint w + 32768) mod 65536 = uint w + 32768"
      using b by simp
    then show ?thesis using True s by simp
  next
    case False
    have "uint w + 32768 = (uint w - 32768) + 65536"
      by simp
    then have "(uint w + 32768) mod 65536 = ((uint w - 32768) + 65536) mod 65536"
      by (rule arg_cong)
    also have "\<dots> = (uint w - 32768) mod 65536"
      by (rule mod_add_self2)
    also have "\<dots> = uint w - 32768"
      using False b by (intro mod_pos_pos_trivial) simp_all
    finally show ?thesis using False s by simp
  qed
qed

lemma count_bounds:
  fixes tempCode :: u16
  shows "1 \<le> uint (drop_bit 5 tempCode + 1) \<and> uint (drop_bit 5 tempCode + 1) \<le> 2048"
proof -
  have "uint (drop_bit 5 tempCode) = uint tempCode div 32"
    by (simp add: drop_bit_eq_div uint_div_distrib)
  moreover have "uint tempCode < 65536"
    using uint_lt2p [of tempCode] by simp
  ultimately have "uint (drop_bit 5 tempCode) < 2048"
    by simp
  moreover have "0 \<le> uint (drop_bit 5 tempCode)"
    by (rule uint_ge_0)
  ultimately show ?thesis
    by (simp add: uint_plus_if')
qed

lemma remaining_decreases:
  fixes r :: i16 and tempCode :: u16
  assumes "0 \<le> sint r"
  shows "nat (sint (r - (drop_bit 5 tempCode + 1)) + 1) < nat (sint r + 1)"
proof -
  define k :: u16 where "k = drop_bit 5 tempCode + 1"
  define a where "a = uint r"
  define c where "c = uint k"
  define d where "d = uint (r - k)"
  have c: "1 \<le> c" "c \<le> 2048"
    using count_bounds [of tempCode] by (simp_all add: c_def k_def)
  have a0: "0 \<le> a" "a < 65536"
    using uint_lt2p [of r] by (simp_all add: a_def)
  have sr: "sint r = (if a < 32768 then a else a - 65536)"
    by (simp add: sint16_uint a_def)
  have d: "d = (if c \<le> a then a - c else a - c + 65536)"
    by (simp add: d_def a_def c_def uint_sub_if')
  have sd: "sint (r - k) = (if d < 32768 then d else d - 65536)"
    by (simp add: sint16_uint d_def)
  have "a < 32768"
    using assms sr a0 by (simp split: if_splits)
  then have "sint r = a" "sint (r - k) = a - c"
    using sr sd d c a0 by (simp_all split: if_splits)
  then have "nat (sint (r - k) + 1) < nat (sint r + 1)"
    using c a0 by simp
  then show ?thesis
    by (simp add: k_def)
qed

lemma count_nat:
  fixes tempCode :: u16
  shows "of_nat (nat (sint (drop_bit 5 tempCode + 1))) = (drop_bit 5 tempCode + 1 :: i16)"
proof -
  let ?k = "drop_bit 5 tempCode + 1 :: u16"
  have "sint ?k = uint ?k"
    using count_bounds [of tempCode] by (simp add: sint16_uint)
  then have "nat (sint ?k) = unat ?k"
    by simp
  then show ?thesis
    by (simp only: of_nat_unat unsigned_word_eqI ucast_id)
qed


function parseLoop ::
  "HuffmanTree \<Rightarrow> State \<Rightarrow> i16 \<Rightarrow> i16 list \<Rightarrow> i16 list \<Rightarrow> (State \<times> i16 list \<times> i16 list) outcome" where
  "parseLoop dict stateData remainingSymbol workingBits workingCode =
     (if 0 \<le> sint remainingSymbol then
        obind (readCode dict stateData) (\<lambda>decoded.
          (let tempCode = fst decoded;
               codeNumberBits = tempCode AND 0x1F;
               codeNumberSymbol = drop_bit 5 tempCode + 1
           in if codeNumberBits = 0
              then parseLoop dict (snd decoded) (remainingSymbol - codeNumberSymbol)
                     workingBits workingCode
              else obind (registerSymbols (nat (sint codeNumberSymbol)) (unat codeNumberBits)
                            remainingSymbol workingBits workingCode) (\<lambda>tabs.
                     parseLoop dict (snd decoded) (fst tabs) (fst (snd tabs))
                       (snd (snd tabs)))))
      else Ok (stateData, workingBits, workingCode))"
  by pat_completeness auto
termination
proof (relation "measure (\<lambda>(dict, st, r, wb, wc). nat (sint r + 1))", goal_cases)
  case 1
  show ?case by simp
next
  case (2 dict st r wb wc decoded tempCode codeNumberBits codeNumberSymbol)
  then show ?case
    using remaining_decreases by simp
next
  case (3 dict st r wb wc decoded tempCode codeNumberBits codeNumberSymbol tabs)
  then show ?case
    using remaining_decreases [of r "fst decoded"]
      registerSymbols_remaining [of _ _ r wb wc tabs]
    by (simp add: count_nat)
qed

definition parseHuffmanTree ::
  "HuffmanTree \<Rightarrow> State \<Rightarrow> HuffmanTree \<Rightarrow> (State \<times> HuffmanTree) outcome" where
  "parseHuffmanTree dict stateData ioHuffmanTree =
     obind (needBits stateData 16) (\<lambda>s1.
     obind (dropBits s1 16) (\<lambda>s2.
       (let numberSymbolData = (ucast (readBits s1 16) :: u16);
            numberSymbol = (numberSymbolData :: i16);
            remainingSymbol = numberSymbol - 1
        in obind (parseLoop dict s2 remainingSymbol (replicate MAX_CODE_BITS_LENGTH (- 1))
                    (replicate MAX_SYMBOL_VALUE (- 1))) (\<lambda>parsed.
           obind (createHuffmanTree ioHuffmanTree (fst (snd parsed)) (snd (snd parsed)))
             (\<lambda>tree. Ok (fst parsed, tree))))))"

section \<open>The inflate engine\<close>

text \<open>
  The two \<open>switch\<close> statements of the copy mode. In
  \<open>uint32((1 << (codeDivision4 - 1)) * (4 + rem))\<close> the untyped constant 1 takes the
  type of the other factor, \<open>uint16\<close>: the shift and the product are 16-bit operations,
  and the conversion to \<open>uint32\<close> comes last. \<open>os.Exit(1)\<close> ends the process.
\<close>

definition writeSizeBase :: "u16 \<Rightarrow> u32 outcome" where
  "writeSizeBase tempCode =
     (let codeDivision4 = tempCode div 4; rem = tempCode mod 4
      in if codeDivision4 = 0 then Ok (ucast tempCode)
         else if codeDivision4 < 7
         then Ok (ucast (push_bit (unat (codeDivision4 - 1)) (1 :: u16) * (4 + rem)))
         else if tempCode = 28 then Ok 0xFF
         else Fatal ''Invalid value for writeSize code.'')"

definition writeOffsetBase :: "u16 \<Rightarrow> u32 outcome" where
  "writeOffsetBase tempCode =
     (let codeDivision2 = tempCode div 2
      in if codeDivision2 = 0 then Ok (ucast tempCode)
         else if codeDivision2 < 17
         then Ok (ucast (push_bit (unat (codeDivision2 - 1)) (1 :: u16) * (2 + tempCode mod 2)))
         else Fatal ''Invalid value for writeOffset code.'')"

text \<open>
  The three lines \<open>needBits\<close>, \<open>readBits\<close>, \<open>dropBits\<close> that fetch the additional
  bits; the count is converted to \<open>uint8\<close>.
\<close>

definition additionalBits :: "State \<Rightarrow> u16 \<Rightarrow> (u32 \<times> State) outcome" where
  "additionalBits stateData n =
     obind (needBits stateData (ucast n)) (\<lambda>s1.
     obind (dropBits s1 (ucast n)) (\<lambda>s2. Ok (readBits s1 (ucast n), s2)))"

definition copyLength :: "u32 \<Rightarrow> u16 \<Rightarrow> State \<Rightarrow> (u32 \<times> State) outcome" where
  "copyLength writeSizeConstantAddition tempCode stateData =
     obind (writeSizeBase tempCode) (\<lambda>writeSize.
       if 1 < tempCode div 4 \<and> tempCode \<noteq> 28
       then obind (additionalBits stateData (tempCode div 4 - 1)) (\<lambda>more.
              Ok ((writeSize OR fst more) + writeSizeConstantAddition, snd more))
       else Ok (writeSize + writeSizeConstantAddition, stateData))"

definition copyDistance :: "u16 \<Rightarrow> State \<Rightarrow> (u32 \<times> State) outcome" where
  "copyDistance tempCode stateData =
     obind (writeOffsetBase tempCode) (\<lambda>writeOffset.
       if 1 < tempCode div 2
       then obind (additionalBits stateData (tempCode div 2 - 1)) (\<lambda>more.
              Ok ((writeOffset OR fst more) + 1, snd more))
       else Ok (writeOffset + 1, stateData))"

text \<open>
  The copy loop. The output buffer is a slice: both indexings are checked against its
  length, and \<open>tempOutputPosition - writeOffset\<close> is a \<open>uint32\<close> subtraction.
\<close>

lemma word_less_succ_measure:
  fixes a b :: "'a::len word"
  assumes "a < b"
  shows "unat b - unat (a + 1) < unat b - unat a"
  using assms by unat_arith

function copyLoop ::
  "u8 list \<Rightarrow> u32 \<Rightarrow> u32 \<Rightarrow> u32 \<Rightarrow> u32 \<Rightarrow> u32 \<Rightarrow> (u8 list \<times> u32) outcome" where
  "copyLoop outputBuffer tempOutputPosition writeOffset alreadyWritten writeSize
       outputBufferSize =
     (if alreadyWritten < writeSize \<and> tempOutputPosition < outputBufferSize then
        obind (at outputBuffer (unat (tempOutputPosition - writeOffset))) (\<lambda>b.
        obind (store outputBuffer (unat tempOutputPosition) b) (\<lambda>buffer.
          copyLoop buffer (tempOutputPosition + 1) writeOffset (alreadyWritten + 1) writeSize
            outputBufferSize))
      else Ok (outputBuffer, tempOutputPosition))"
  by pat_completeness auto
termination
  by (relation "measure (\<lambda>(out, pos, off, written, n, size). unat n - unat written)")
    (simp_all add: word_less_succ_measure)

text \<open>One round of the inner loop: a literal, or a copy.\<close>

definition inflateCode ::
  "u32 \<Rightarrow> HuffmanTree \<Rightarrow> HuffmanTree \<Rightarrow> u32 \<Rightarrow> State \<Rightarrow> u8 list \<Rightarrow> u32 \<Rightarrow>
     (State \<times> u8 list \<times> u32) outcome" where
  "inflateCode writeSizeConstantAddition huffmanTreeSymbol huffmanTreeCopy outputBufferSize
       stateData outputBuffer tempOutputPosition =
     obind (readCode huffmanTreeSymbol stateData) (\<lambda>symbol.
       if fst symbol < 0x100
       then obind (store outputBuffer (unat tempOutputPosition) (ucast (fst symbol)))
              (\<lambda>buffer. Ok (snd symbol, buffer, tempOutputPosition + 1))
       else
         obind (copyLength writeSizeConstantAddition (fst symbol - 0x100) (snd symbol))
           (\<lambda>len.
         obind (readCode huffmanTreeCopy (snd len)) (\<lambda>offsetCode.
         obind (copyDistance (fst offsetCode) (snd offsetCode)) (\<lambda>dist.
         obind (copyLoop outputBuffer tempOutputPosition (fst dist) 0 (fst len)
                  outputBufferSize) (\<lambda>copied.
           Ok (snd dist, fst copied, snd copied))))))"

function inflateCodes ::
  "u32 \<Rightarrow> HuffmanTree \<Rightarrow> HuffmanTree \<Rightarrow> u32 \<Rightarrow> u32 \<Rightarrow> State \<Rightarrow> u8 list \<Rightarrow> u32 \<Rightarrow> u32 \<Rightarrow>
     (State \<times> u8 list \<times> u32) outcome" where
  "inflateCodes writeSizeConstantAddition huffmanTreeSymbol huffmanTreeCopy outputBufferSize
       maxCount stateData outputBuffer tempOutputPosition currentCodeReadCount =
     (if currentCodeReadCount < maxCount \<and> tempOutputPosition < outputBufferSize then
        obind (inflateCode writeSizeConstantAddition huffmanTreeSymbol huffmanTreeCopy
                 outputBufferSize stateData outputBuffer tempOutputPosition) (\<lambda>r.
          inflateCodes writeSizeConstantAddition huffmanTreeSymbol huffmanTreeCopy
            outputBufferSize maxCount (fst r) (fst (snd r)) (snd (snd r))
            (currentCodeReadCount + 1))
      else Ok (stateData, outputBuffer, tempOutputPosition))"
  by pat_completeness auto
termination
  by (relation "measure (\<lambda>(S, ts, tc, size, maxCount, st, out, pos, count).
        unat maxCount - unat count)")
    (simp_all add: word_less_succ_measure)

text \<open>
  The main loop \<open>for tempOutputPosition < outputBufferSize\<close>. Each of its rounds that
  returns has moved the output position forward, so the loop makes at most
  \<open>outputBufferSize\<close> rounds; it is unrolled that many times.
\<close>

fun inflateLoop ::
  "nat \<Rightarrow> HuffmanTree \<Rightarrow> u32 \<Rightarrow> u32 \<Rightarrow> State \<Rightarrow> u8 list \<Rightarrow> u32 \<Rightarrow>
     (State \<times> u8 list \<times> u32) outcome" where
  "inflateLoop 0 dict writeSizeConstantAddition outputBufferSize stateData outputBuffer
       tempOutputPosition =
     (if tempOutputPosition < outputBufferSize then OutOfFuel
      else Ok (stateData, outputBuffer, tempOutputPosition))"
| "inflateLoop (Suc fuel) dict writeSizeConstantAddition outputBufferSize stateData
       outputBuffer tempOutputPosition =
     (if tempOutputPosition < outputBufferSize then
        obind (parseHuffmanTree dict stateData emptyTree) (\<lambda>symbolTree.
        obind (parseHuffmanTree dict (fst symbolTree) emptyTree) (\<lambda>copyTree.
        obind (needBits (fst copyTree) 4) (\<lambda>s1.
        obind (dropBits s1 4) (\<lambda>s2.
        obind (inflateCodes writeSizeConstantAddition (snd symbolTree) (snd copyTree)
                 outputBufferSize (push_bit 12 (readBits s1 4 + 1)) s2 outputBuffer
                 tempOutputPosition 0) (\<lambda>r.
          inflateLoop fuel dict writeSizeConstantAddition outputBufferSize (fst r)
            (fst (snd r)) (snd (snd r)))))))
      else Ok (stateData, outputBuffer, tempOutputPosition))"

definition inflateData :: "HuffmanTree \<Rightarrow> State \<Rightarrow> u8 list \<Rightarrow> u32 \<Rightarrow> (State \<times> u8 list) outcome" where
  "inflateData dict stateData outputBuffer outputBufferSize =
     obind (needBits stateData 8) (\<lambda>s1.
     obind (dropBits s1 4) (\<lambda>s2.
     obind (dropBits s2 4) (\<lambda>s3.
     obind (inflateLoop (unat outputBufferSize) dict (readBits s2 4 + 1) outputBufferSize s3
              outputBuffer 0) (\<lambda>r.
       Ok (fst r, fst (snd r))))))"

text \<open>\<open>convertU8ToU32\<close>: four bytes make one word, the first byte the lowest.\<close>

fun wordsLE :: "u8 list \<Rightarrow> u32 list" where
  "wordsLE (a # b # c # d # rest) =
     (ucast a OR push_bit 8 (ucast b) OR push_bit 16 (ucast c) OR push_bit 24 (ucast d))
       # wordsLE rest"
| "wordsLE rest = []"

definition convertU8ToU32 :: "u8 list \<Rightarrow> u32 list outcome" where
  "convertU8ToU32 input =
     (if length input mod 4 \<noteq> 0 then Err ''input size is not a multiple of 4''
      else Ok (wordsLE input))"

text \<open>
  \<open>inflateBuffer\<close>. The input slice is \<open>None\<close> when it is \<open>nil\<close>. The in-out parameter
  \<open>*outputBufferSize\<close> is an argument and the second component of the result. The
  dictionary tree is the value \<open>initializeHuffmanTreeDict\<close> leaves in the global
  variable on the first call.
\<close>

definition inflateBuffer ::
  "u32 \<Rightarrow> u8 list option \<Rightarrow> u32 \<Rightarrow> u32 \<Rightarrow> (u8 list \<times> u32) outcome" where
  "inflateBuffer inputBufferSize inputBuffer outputBufferSize customOutputBufferSize =
     (case inputBuffer of
        None \<Rightarrow> Err ''input buffer is null''
      | Some input \<Rightarrow>
          obind initializeHuffmanTreeDict (\<lambda>huffmanTreeDict.
            if CompressedCodes huffmanTreeDict ! 0 = 0 then Err ''huffman tree empty''
            else
              (case convertU8ToU32 input of
                 Err e \<Rightarrow> Err (''failed to convert input buffer: '' @ e)
               | Fatal m \<Rightarrow> Fatal m
               | Panic \<Rightarrow> Panic
               | OutOfFuel \<Rightarrow> OutOfFuel
               | Ok u32InputBuffer \<Rightarrow>
                   obind (needBits \<lparr>InputData = u32InputBuffer,
                            InputSize = of_nat (length u32InputBuffer), InputPosition = 0,
                            Head = 0, Bits = 0, Buffer = 0, Empty = False\<rparr> 32) (\<lambda>s1.
                   obind (dropBits s1 32) (\<lambda>s2.
                   obind (needBits s2 32) (\<lambda>s3.
                   obind (dropBits s3 32) (\<lambda>s4.
                     (let uncompressed = readBits s3 32;
                          reported = (if outputBufferSize \<noteq> 0 \<and> outputBufferSize < uncompressed
                                      then outputBufferSize else uncompressed);
                          tempOutputBufferSize = (if 0 < customOutputBufferSize
                                                  then customOutputBufferSize else reported)
                      in obind (inflateData huffmanTreeDict s4
                                  (replicate (unat tempOutputBufferSize) 0)
                                  tempOutputBufferSize) (\<lambda>r. Ok (snd r, reported))))))))))"

section \<open>Extracting an entry\<close>

text \<open>
  The scan of the index table in \<open>extractMFTData\<close>: the \<open>BaseID\<close> of the first record
  that matches, as an \<open>int\<close>, or \<open>-1\<close>.
\<close>

fun findIndex :: "MFTIndexData list \<Rightarrow> u32 \<Rightarrow> bool \<Rightarrow> int" where
  "findIndex [] number isFileID = - 1"
| "findIndex (entry # rest) number isFileID =
     (if isFileID \<and> FileID entry = number then uint (BaseID entry)
      else if \<not> isFileID \<and> BaseID entry = number then uint (BaseID entry)
      else findIndex rest number isFileID)"

text \<open>
  What \<open>extractMFTData\<close> does with the entry it has resolved: it opens the archive (the
  argument is what \<open>os.Open\<close> gave), seeks to the entry's offset, reads into a buffer
  of \<open>Size\<close> zero bytes, and inflates the buffer when the entry is flagged compressed.
  \<open>Read\<close> reports the end of the file when it delivers nothing into a buffer that is
  not empty.
\<close>

definition readEntryData :: "MFTData \<Rightarrow> u8 list option \<Rightarrow> u8 list outcome" where
  "readEntryData mftEntry opened =
     (case opened of
        None \<Rightarrow> Err ''failed to open file''
      | Some bytes \<Rightarrow>
          if sint (Offset mftEntry) < 0 then Err ''failed to seek to MFT entry offset''
          else
            (let got = take (unat (Size mftEntry)) (drop (unat (Offset mftEntry)) bytes);
                 buffer = got @ replicate (unat (Size mftEntry) - length got) 0
             in if got = [] \<and> Size mftEntry \<noteq> 0 then Err ''failed to read MFT data''
                else if CompressionFlag mftEntry \<noteq> 0 then
                  (case inflateBuffer (of_nat (length buffer)) (Some buffer) 0 0 of
                     Ok r \<Rightarrow> Ok (fst r)
                   | Err e \<Rightarrow> Err (''decompression failed: '' @ e)
                   | Fatal m \<Rightarrow> Fatal m
                   | Panic \<Rightarrow> Panic
                   | OutOfFuel \<Rightarrow> OutOfFuel)
                else Ok buffer))"

text \<open>
  \<open>extractMFTData\<close>. \<open>datFile.MFTData[index-1]\<close> indexes a slice, with Go's bounds
  check on the \<open>int\<close> \<open>index - 1\<close>.
\<close>

definition extractMFTData :: "DatFile \<Rightarrow> u32 \<Rightarrow> bool \<Rightarrow> u8 list option \<Rightarrow> u8 list outcome" where
  "extractMFTData datFile number isFileID opened =
     (let index = findIndex (MFTIndexData datFile) number isFileID
      in if index = - 1 then Err ''MFT entry not found''
         else if index - 1 < 0 \<or> int (length (MFTData datFile)) \<le> index - 1 then Panic
         else readEntryData (MFTData datFile ! nat (index - 1)) opened)"

section \<open>Resolving a key\<close>

lemma findIndex_find:
  "findIndex idx number isFileID =
     (case find (\<lambda>e. (if isFileID then FileID e else BaseID e) = number) idx of
        None \<Rightarrow> - 1
      | Some e \<Rightarrow> uint (BaseID e))"
  by (induction idx) auto

lemma findIndex_not_minus_one:
  "find (\<lambda>e. (if isFileID then FileID e else BaseID e) = number) idx = Some e
     \<Longrightarrow> findIndex idx number isFileID = uint (BaseID e) \<and> findIndex idx number isFileID \<noteq> - 1"
proof -
  assume "find (\<lambda>e. (if isFileID then FileID e else BaseID e) = number) idx = Some e"
  then have "findIndex idx number isFileID = uint (BaseID e)"
    by (simp add: findIndex_find)
  moreover have "uint (BaseID e) \<noteq> - 1"
    using uint_ge_0 [of "BaseID e"] by linarith
  ultimately show ?thesis by simp
qed

lemma extractMFTData_resolved:
  assumes "find (\<lambda>e. (if isFileID then FileID e else BaseID e) = number) (MFTIndexData datFile)
             = Some e"
  shows "extractMFTData datFile number isFileID opened =
           (if BaseID e = 0 \<or> length (MFTData datFile) < unat (BaseID e) then Panic
            else readEntryData (MFTData datFile ! (unat (BaseID e) - 1)) opened)"
proof -
  have i: "findIndex (MFTIndexData datFile) number isFileID = uint (BaseID e)"
    "findIndex (MFTIndexData datFile) number isFileID \<noteq> - 1"
    using findIndex_not_minus_one [OF assms] by simp_all
  have z: "uint (BaseID e) - 1 < 0 \<longleftrightarrow> BaseID e = 0"
  proof -
    define a where "a = uint (BaseID e)"
    have "0 \<le> a"
      by (simp add: a_def)
    then have "a - 1 < 0 \<longleftrightarrow> a = 0"
      by linarith
    then show ?thesis
      by (simp add: a_def uint_0_iff)
  qed
  have l: "int (length (MFTData datFile)) \<le> uint (BaseID e) - 1
      \<longleftrightarrow> length (MFTData datFile) < unat (BaseID e)"
    using uint_nat [of "BaseID e"] by arith
  have n: "nat (uint (BaseID e) - 1) = unat (BaseID e) - 1"
    using uint_nat [of "BaseID e"] by arith
  show ?thesis
    using i z l n by (simp add: extractMFTData_def Let_def)
qed

lemma extractMFTData_not_found:
  assumes "find (\<lambda>e. (if isFileID then FileID e else BaseID e) = number) (MFTIndexData datFile)
             = None"
  shows "extractMFTData datFile number isFileID opened = Err ''MFT entry not found''"
  using assms by (simp add: extractMFTData_def findIndex_find)


text \<open>
  A handle with three index records, two of them under the same \<open>FileID\<close>, and two
  entries that are stored uncompressed in a file of five bytes.
\<close>

definition datFile3 :: DatFile where
  "datFile3 =
     datFile2
       \<lparr>MFTData := [\<lparr>Offset = 0, Size = 2, CompressionFlag = 0, EntryFlag = 0, Counter = 0,
                      EntryCRC = 0\<rparr>,
                    \<lparr>Offset = 1, Size = 3, CompressionFlag = 0, EntryFlag = 0, Counter = 0,
                      EntryCRC = 0\<rparr>],
        MFTIndexData := [\<lparr>FileID = 7, BaseID = 2\<rparr>, \<lparr>FileID = 7, BaseID = 1\<rparr>,
                         \<lparr>FileID = 9, BaseID = 3\<rparr>]\<rparr>"

definition payload3 :: "u8 list" where
  "payload3 = [10, 11, 12, 13, 14]"

lemmas datFile_evals = datFile2_def datFile3_def payload3_def readEntryData_def Let_def

text \<open>
  Claim C7. The index table is scanned in stored order and the first record whose
  \<open>FileID\<close> (or \<open>BaseID\<close>, by the kind of the key) equals the key decides: without such a
  record the call returns the error \<open>MFT entry not found\<close> and reads nothing; with one
  whose \<open>BaseID\<close> is a valid 1-based index, the entry that is read is
  \<open>MFTData[BaseID - 1]\<close>.
\<close>

theorem extractMFTData_first_match:
  "(find (\<lambda>e. (if isFileID then FileID e else BaseID e) = number) (MFTIndexData datFile) = None
      \<longrightarrow> extractMFTData datFile number isFileID opened = Err ''MFT entry not found'') \<and>
   (find (\<lambda>e. (if isFileID then FileID e else BaseID e) = number) (MFTIndexData datFile) = Some e
      \<and> 1 \<le> unat (BaseID e) \<and> unat (BaseID e) \<le> length (MFTData datFile)
      \<longrightarrow> extractMFTData datFile number isFileID opened =
            readEntryData (MFTData datFile ! (unat (BaseID e) - 1)) opened)"
proof (intro conjI impI)
  assume "find (\<lambda>e. (if isFileID then FileID e else BaseID e) = number) (MFTIndexData datFile)
            = None"
  then show "extractMFTData datFile number isFileID opened = Err ''MFT entry not found''"
    by (rule extractMFTData_not_found)
next
  assume a: "find (\<lambda>e. (if isFileID then FileID e else BaseID e) = number)
               (MFTIndexData datFile) = Some e
             \<and> 1 \<le> unat (BaseID e) \<and> unat (BaseID e) \<le> length (MFTData datFile)"
  then have "BaseID e \<noteq> 0"
    by auto
  then show "extractMFTData datFile number isFileID opened =
      readEntryData (MFTData datFile ! (unat (BaseID e) - 1)) opened"
    using a by (simp add: extractMFTData_resolved)
qed

theorem extractMFTData_first_match_witness:
  "find (\<lambda>e. (if True then FileID e else BaseID e) = 7) (MFTIndexData datFile3)
     = Some \<lparr>FileID = 7, BaseID = 2\<rparr> \<and>
   extractMFTData datFile3 7 True (Some payload3) = Ok [11, 12, 13] \<and>
   find (\<lambda>e. (if False then FileID e else BaseID e) = 7) (MFTIndexData datFile3) = None \<and>
   extractMFTData datFile3 7 False (Some payload3) = Err ''MFT entry not found''"
  using extractMFTData_first_match [of True 7 datFile3 "Some payload3" "\<lparr>FileID = 7, BaseID = 2\<rparr>"]
    extractMFTData_first_match [of False 7 datFile3 "Some payload3"]
  by (simp add: datFile_evals)

text \<open>
  Claim C8, as the code has it. When the first matching record has \<open>BaseID = 0\<close>, or a
  \<open>BaseID\<close> above the number of entries, \<open>extractMFTData\<close> returns no error: the
  indexing \<open>MFTData[index-1]\<close> is out of range and the runtime panics.
\<close>

theorem extractMFTData_bad_baseID_panics:
  assumes "find (\<lambda>e. (if isFileID then FileID e else BaseID e) = number)
             (MFTIndexData datFile) = Some e"
    and "BaseID e = 0 \<or> length (MFTData datFile) < unat (BaseID e)"
  shows "extractMFTData datFile number isFileID opened = Panic"
  using assms by (simp add: extractMFTData_resolved)

theorem extractMFTData_bad_baseID_panics_witness:
  "find (\<lambda>e. (if True then FileID e else BaseID e) = 9) (MFTIndexData datFile3)
     = Some \<lparr>FileID = 9, BaseID = 3\<rparr> \<and>
   length (MFTData datFile3) < unat (BaseID \<lparr>FileID = 9, BaseID = 3\<rparr>) \<and>
   extractMFTData datFile3 9 True (Some payload3) = Panic"
  using extractMFTData_bad_baseID_panics
    [of True 9 datFile3 "\<lparr>FileID = 9, BaseID = 3\<rparr>" "Some payload3"]
  by (simp add: datFile_evals)

text \<open>
  The claim as the specification states it fails on the handle that \<open>loadDatFile\<close>
  returns for \<open>archive2\<close>, whose only index record has \<open>BaseID = 0\<close>, and on a record
  with \<open>BaseID = 3\<close> in a handle of two entries: the call panics, it returns no error.
\<close>

theorem extractMFTData_no_CorruptIndex_error:
  "loadDatFile (Some archive2) = Ok datFile2 \<and>
   extractMFTData datFile2 0x1A74664D True (Some archive2) = Panic \<and>
   extractMFTData datFile3 3 False (Some payload3) = Panic \<and>
   \<not> (\<exists>msg. extractMFTData datFile2 0x1A74664D True (Some archive2) = Err msg)"
  by (simp add: loadDatFile_archive2 extractMFTData_def datFile2_def datFile3_def)

end
